theory Spec2Isabelle
  imports Main "HOL-Library.Word"
begin

section \<open>The shared-memory transport of mooshika (src/trans\_shm.c)\<close>

text \<open>
  The file emulates the RDMA transport of mooshika with one System V shared-memory segment
  (the mailbox) and three semaphore sets. This theory embeds its functions as HOL functions
  over an explicit state and proves or refutes the statements of the specification about them.

  Conventions of the embedding:
  \<^item> a C pointer is a value of \<open>'a ptr\<close>: \<open>Null\<close>, a reference \<open>Ref x\<close>, or \<open>Wild\<close> for a
    pointer that is not null and points to no object (the \<open>(void *)-1\<close> of a failed
    \<open>shmat\<close>, or what a block fresh from \<open>malloc\<close> may hold where nobody wrote);
  \<^item> a function pointer, a \<open>void *\<close> argument and a pointer to a caller's \<open>msk_data_t\<close> are
    \<open>nat option\<close> (\<open>None\<close> is \<open>NULL\<close>);
  \<^item> a function that dereferences \<open>Null\<close> or \<open>Wild\<close> has the outcome \<open>Fault\<close>; a function
    that suspends its thread on the condition variable has the outcome \<open>Blocks\<close>;
  \<^item> what the operating system and the allocator answer is an argument of the function
    (an environment record), so every failure path of the source is reachable;
  \<^item> calls of library functions that a statement talks about (lock, unlock, semop,
    callbacks, free of a queue node, memcpy) are appended to the \<open>trace\<close> of the state.
\<close>

subsection \<open>Constants of the source and of errno.h\<close>

definition SHM_KEY :: int where "SHM_KEY = 4213"
definition SHM_SIZE :: int where "SHM_SIZE = 100 * 1024 * 1025"
definition SHM_SEM_KEY :: int where "SHM_SEM_KEY = 4241"
definition SERVER_SEND_SEM_KEY :: int where "SERVER_SEND_SEM_KEY = 4242"
definition CLIENT_SEND_SEM_KEY :: int where "CLIENT_SEND_SEM_KEY = 4243"
definition RECV_SEM :: int where "RECV_SEM = 0"
definition SEND_SEM :: int where "SEND_SEM = 1"
definition SHM_SEM :: int where "SHM_SEM = 2"

text \<open>The values of Linux's errno.h.\<close>

definition ENOMEM :: int where "ENOMEM = 12"
definition EINVAL :: int where "EINVAL = 22"

subsection \<open>Data model\<close>

datatype 'a ptr = Wild | Null | Ref 'a

datatype 'a outcome = Returns 'a | Fault | Blocks

text \<open>Sequencing: what follows a call runs only if the call returned.\<close>

definition obind :: "'a outcome \<Rightarrow> ('a \<Rightarrow> 'b outcome) \<Rightarrow> 'b outcome" where
  "obind m f = (case m of Returns x \<Rightarrow> f x | Fault \<Rightarrow> Fault | Blocks \<Rightarrow> Blocks)"

text \<open>
  Modelled from the spec: the enumeration of connection states is declared in mooshika.h,
  which is not part of the source file. The specification names the states \<open>INIT\<close>,
  \<open>CONNECTED\<close> and \<open>CLOSED\<close>; the source file assigns \<open>MSK_INIT\<close> and \<open>MSK_CLOSED\<close>.
\<close>

datatype msk_state = MSK_INIT | MSK_CONNECTED | MSK_CLOSED

text \<open>
  Modelled from the spec: \<open>msk_data_t\<close> is declared in mooshika.h. The source file uses
  its fields \<open>size\<close> (the mutable 32-bit length) and \<open>data\<close> (the address of the bytes).
\<close>

record msk_data =
  size_d :: "32 word"
  data :: nat

record msk_ctx =
  used :: int
  pdata :: "nat option"
  callback :: "nat option"
  callback_arg :: "nat option"

record msk_list =
  ctx :: nat
  next_l :: "nat ptr"

text \<open>
  The shared segment as the source reads it through \<open>shm->shm\<close>: the length field
  \<open>shm->shm->size\<close> and the bytes that start at \<open>&shm->shm->data\<close>, by offset.
\<close>

record segment =
  seg_size :: "32 word"
  seg_data :: "nat \<Rightarrow> 8 word"

record msk_shm =
  shmid :: int
  shmkey :: int
  len :: int
  shm :: "segment ptr"
  shm_semkey :: int
  shm_semid :: int

record msk_sem =
  semkey :: int
  semid :: int
  ctx_head :: "nat ptr"
  ctx_last :: "nat ptr"

record ibv_cq =
  cq_context :: "msk_sem ptr"

record ibv_qp =
  qp_context :: "msk_shm ptr"
  send_cq :: "ibv_cq ptr"
  recv_cq :: "ibv_cq ptr"

text \<open>
  Modelled from the spec: \<open>msk_trans_t\<close> and \<open>msk_trans_attr_t\<close> are declared in
  mooshika.h. These are the fields the source file reads or writes; the mutex and the
  condition variable are represented by the calls made on them, in the trace.
\<close>

record msk_trans =
  state :: msk_state
  server :: int
  timeout :: int
  sq_depth :: int
  rq_depth :: int
  disconnect_callback :: "nat option"
  send_buf :: "msk_ctx list ptr"
  recv_buf :: "msk_ctx list ptr"
  qp :: "ibv_qp ptr"

record msk_trans_attr =
  attr_server :: int
  attr_timeout :: int
  attr_sq_depth :: int
  attr_rq_depth :: int
  attr_disconnect_callback :: "nat option"

text \<open>What the process holds: heap blocks by the field that owns them, and handles of
  the operating system.\<close>

datatype resource =
    Heap_trans | Heap_recv_buf | Heap_send_buf | Heap_qp | Heap_qp_context
  | Heap_send_cq | Heap_send_cq_context | Heap_recv_cq | Heap_recv_cq_context
  | Shm_segment int | Shm_attachment int | Sem_set int

datatype mutex = Trans_lock | Private_lock

datatype thread = Sender | Receiver

text \<open>
  The calls the trace records. \<open>Memcpy_to_shm p src n\<close> and \<open>Memcpy_from_shm p dst n\<close> are
  the two \<open>memcpy\<close> of the workers, for the \<open>msk_data_t\<close> at \<open>p\<close>; \<open>Callback t f p arg\<close> is
  the call \<open>ctx->callback(trans, ctx->pdata, ctx->callback_arg)\<close> in the thread \<open>t\<close>;
  \<open>Semop ident op\<close> is a call of \<open>semop\<close> with the identifier \<open>ident\<close> and the operation
  \<open>op\<close>.
\<close>

datatype event =
    Mutex_init | Cond_init | Mutex_destroy | Cond_destroy
  | Mutex_lock mutex | Mutex_unlock mutex
  | Cond_wait | Cond_broadcast
  | Thread_create_send | Thread_create_recv
  | Semop int int
  | Memcpy_to_shm nat nat nat
  | Memcpy_from_shm nat nat nat
  | Callback thread nat "nat option" "nat option"
  | Disconnect_callback nat
  | Malloc_node "nat option"
  | Free_node nat

text \<open>A queue node in the heap. A freed block still has bytes, and the code reads them:
  \<open>Freed\<close> holds what the allocator has left in the block.\<close>

datatype cell = Unallocated | Live msk_list | Freed msk_list

record world =
  held :: "resource list"
  nodes :: "nat \<Rightarrow> cell"
  datas :: "nat \<Rightarrow> msk_data option"
  mem :: "nat \<Rightarrow> 8 word"
  trace :: "event list"

definition world0 :: world where
  "world0 = \<lparr>held = [], nodes = (\<lambda>_. Unallocated), datas = (\<lambda>_. None), mem = (\<lambda>_. 0), trace = []\<rparr>"

definition acquire :: "resource \<Rightarrow> world \<Rightarrow> world" where
  "acquire r w = w\<lparr>held := held w @ [r]\<rparr>"

definition release :: "resource \<Rightarrow> world \<Rightarrow> world" where
  "release r w = w\<lparr>held := remove1 r (held w)\<rparr>"

definition emit :: "event list \<Rightarrow> world \<Rightarrow> world" where
  "emit es w = w\<lparr>trace := trace w @ es\<rparr>"

subsection \<open>Teardown: msk\_destroy\_buffer and msk\_destroy\_trans\<close>

text \<open>
  \<open>msk_destroy_buffer\<close> frees the two pools, then reads \<open>trans->qp->send_cq->cq_context\<close>
  without testing \<open>trans->qp\<close> or \<open>trans->qp->send_cq\<close> first; \<open>trans->qp\<close> itself is
  tested only at the end. It never frees \<open>recv_cq\<close>, never detaches the segment and
  never removes the semaphore set of the segment.
\<close>

definition destroy_cq_context :: "resource \<Rightarrow> msk_sem ptr \<Rightarrow> world \<Rightarrow> world outcome" where
  "destroy_cq_context blk p w =
     (case p of
        Wild \<Rightarrow> Fault
      | Null \<Rightarrow> Returns w
      | Ref s \<Rightarrow> Returns (release blk (release (Sem_set (semid s)) w)))"

definition destroy_qp_context :: "msk_shm ptr \<Rightarrow> world \<Rightarrow> world outcome" where
  "destroy_qp_context p w =
     (case p of
        Wild \<Rightarrow> Fault
      | Null \<Rightarrow> Returns w
      | Ref m \<Rightarrow> Returns (release Heap_qp_context (release (Shm_segment (shmid m)) w)))"

definition free_pool :: "resource \<Rightarrow> msk_ctx list ptr \<Rightarrow> world \<Rightarrow> world outcome" where
  "free_pool blk p w =
     (case p of Wild \<Rightarrow> Fault | Null \<Rightarrow> Returns w | Ref _ \<Rightarrow> Returns (release blk w))"

definition msk_destroy_buffer :: "msk_trans \<Rightarrow> world \<Rightarrow> world outcome" where
  "msk_destroy_buffer tr w =
     obind (free_pool Heap_send_buf (send_buf tr) w) (\<lambda>w1.
     obind (free_pool Heap_recv_buf (recv_buf tr) w1) (\<lambda>w2.
     (case qp tr of
        Wild \<Rightarrow> Fault
      | Null \<Rightarrow> Fault
      | Ref q \<Rightarrow>
     (case send_cq q of
        Wild \<Rightarrow> Fault
      | Null \<Rightarrow> Fault
      | Ref sc \<Rightarrow>
     obind (destroy_cq_context Heap_send_cq_context (cq_context sc) w2) (\<lambda>w3.
     (let w4 = release Heap_send_cq w3 in
     (case recv_cq q of
        Wild \<Rightarrow> Fault
      | Null \<Rightarrow> Fault
      | Ref rc \<Rightarrow>
     obind (destroy_cq_context Heap_recv_cq_context (cq_context rc) w4) (\<lambda>w5.
     obind (destroy_qp_context (qp_context q) w5) (\<lambda>w6.
     Returns (release Heap_qp w6))))))))))"

definition msk_destroy_trans :: "msk_trans \<Rightarrow> world \<Rightarrow> world outcome" where
  "msk_destroy_trans tr w =
     obind (msk_destroy_buffer tr w) (\<lambda>w1.
     Returns (release Heap_trans (emit [Mutex_destroy, Cond_destroy] w1)))"

subsection \<open>Creation: msk\_init\<close>

record init_env =
  malloc_trans :: bool
  mutex_init_ret :: int
  cond_init_ret :: int

text \<open>The connection after \<open>memset(trans, 0, sizeof(msk_trans_t))\<close> and the assignment
  of \<open>MSK_INIT\<close> that follows it.\<close>

definition zeroed_trans :: msk_trans where
  "zeroed_trans =
     \<lparr>state = MSK_INIT, server = 0, timeout = 0, sq_depth = 0, rq_depth = 0,
      disconnect_callback = None, send_buf = Null, recv_buf = Null, qp = Null\<rparr>"

definition msk_init ::
  "init_env \<Rightarrow> msk_trans_attr option \<Rightarrow> world \<Rightarrow> (int \<times> msk_trans option \<times> world) outcome" where
  "msk_init env attr w =
     (if \<not> malloc_trans env then Returns (ENOMEM, None, w)
      else
        (case attr of
           None \<Rightarrow> Fault
         | Some a \<Rightarrow>
             (let w1 = acquire Heap_trans w;
                  tr = zeroed_trans
                    \<lparr>state := MSK_INIT,
                     server := attr_server a,
                     timeout := (if attr_timeout a \<noteq> 0 then attr_timeout a else 3000000),
                     sq_depth := (if attr_sq_depth a \<noteq> 0 then attr_sq_depth a else 5),
                     rq_depth := (if attr_rq_depth a \<noteq> 0 then attr_rq_depth a else 5),
                     disconnect_callback := attr_disconnect_callback a\<rparr>;
                  w2 = emit [Mutex_init] w1
              in if mutex_init_ret env \<noteq> 0 then
                   obind (msk_destroy_trans tr w2) (\<lambda>w3.
                   Returns (mutex_init_ret env, Some tr, w3))
                 else
                   (let w3 = emit [Cond_init] w2
                    in if cond_init_ret env \<noteq> 0 then
                         obind (msk_destroy_trans tr w3) (\<lambda>w4.
                         Returns (cond_init_ret env, Some tr, w4))
                       else Returns (0, Some tr, w3)))))"

subsection \<open>Pointer chains below the connection\<close>

definition map_ref :: "('a \<Rightarrow> 'a) \<Rightarrow> 'a ptr \<Rightarrow> 'a ptr" where
  "map_ref f p = (case p of Ref x \<Rightarrow> Ref (f x) | Null \<Rightarrow> Null | Wild \<Rightarrow> Wild)"

text \<open>\<open>trans->qp->qp_context\<close>, \<open>trans->qp->send_cq->cq_context\<close> and
  \<open>trans->qp->recv_cq->cq_context\<close>: \<open>None\<close> when a pointer on the way is not a reference.\<close>

definition shm_of :: "msk_trans \<Rightarrow> msk_shm option" where
  "shm_of tr =
     (case qp tr of
        Ref q \<Rightarrow> (case qp_context q of Ref m \<Rightarrow> Some m | Null \<Rightarrow> None | Wild \<Rightarrow> None)
      | Null \<Rightarrow> None | Wild \<Rightarrow> None)"

definition cq_sem :: "ibv_cq ptr \<Rightarrow> msk_sem option" where
  "cq_sem p =
     (case p of
        Ref c \<Rightarrow> (case cq_context c of Ref s \<Rightarrow> Some s | Null \<Rightarrow> None | Wild \<Rightarrow> None)
      | Null \<Rightarrow> None | Wild \<Rightarrow> None)"

definition send_sem_of :: "msk_trans \<Rightarrow> msk_sem option" where
  "send_sem_of tr = (case qp tr of Ref q \<Rightarrow> cq_sem (send_cq q) | Null \<Rightarrow> None | Wild \<Rightarrow> None)"

definition recv_sem_of :: "msk_trans \<Rightarrow> msk_sem option" where
  "recv_sem_of tr = (case qp tr of Ref q \<Rightarrow> cq_sem (recv_cq q) | Null \<Rightarrow> None | Wild \<Rightarrow> None)"

definition set_qp_context :: "msk_shm ptr \<Rightarrow> msk_trans \<Rightarrow> msk_trans" where
  "set_qp_context v tr = tr\<lparr>qp := map_ref (\<lambda>q. q\<lparr>qp_context := v\<rparr>) (qp tr)\<rparr>"

definition set_send_cq :: "ibv_cq ptr \<Rightarrow> msk_trans \<Rightarrow> msk_trans" where
  "set_send_cq v tr = tr\<lparr>qp := map_ref (\<lambda>q. q\<lparr>send_cq := v\<rparr>) (qp tr)\<rparr>"

definition set_recv_cq :: "ibv_cq ptr \<Rightarrow> msk_trans \<Rightarrow> msk_trans" where
  "set_recv_cq v tr = tr\<lparr>qp := map_ref (\<lambda>q. q\<lparr>recv_cq := v\<rparr>) (qp tr)\<rparr>"

definition set_send_sem :: "msk_sem ptr \<Rightarrow> msk_trans \<Rightarrow> msk_trans" where
  "set_send_sem v tr =
     tr\<lparr>qp := map_ref (\<lambda>q. q\<lparr>send_cq := map_ref (\<lambda>c. c\<lparr>cq_context := v\<rparr>) (send_cq q)\<rparr>) (qp tr)\<rparr>"

definition set_recv_sem :: "msk_sem ptr \<Rightarrow> msk_trans \<Rightarrow> msk_trans" where
  "set_recv_sem v tr =
     tr\<lparr>qp := map_ref (\<lambda>q. q\<lparr>recv_cq := map_ref (\<lambda>c. c\<lparr>cq_context := v\<rparr>) (recv_cq q)\<rparr>) (qp tr)\<rparr>"

subsection \<open>Resource setup: msk\_setup\_buffer\<close>

text \<open>
  The environment of one call: whether each \<open>malloc\<close> succeeds, what \<open>shmget\<close>, \<open>shmat\<close>
  and the three \<open>semget\<close> return, the value of \<open>errno\<close> after a failed call, and the content
  found in the blocks that \<open>malloc\<close> returns (the source writes only some of their fields).
\<close>

record setup_env =
  malloc_recv_buf :: bool
  malloc_send_buf :: bool
  malloc_qp :: bool
  malloc_qp_context :: bool
  shmget_ret :: int
  shmat_ok :: bool
  shm_semget_ret :: int
  malloc_send_cq :: bool
  malloc_send_cq_context :: bool
  send_semget_ret :: int
  malloc_recv_cq :: bool
  malloc_recv_cq_context :: bool
  recv_semget_ret :: int
  errno_val :: int
  fresh_qp :: ibv_qp
  fresh_shm :: msk_shm
  fresh_send_cq :: ibv_cq
  fresh_send_sem :: msk_sem
  fresh_recv_cq :: ibv_cq
  fresh_recv_sem :: msk_sem
  attached_segment :: segment

definition zero_ctx :: msk_ctx where
  "zero_ctx = \<lparr>used = 0, pdata = None, callback = None, callback_arg = None\<rparr>"

text \<open>The identifier a successful \<open>shmget\<close> or \<open>semget\<close> returns is a handle the process
  holds from then on; \<open>-1\<close> is their failure value.\<close>

definition got :: "(int \<Rightarrow> resource) \<Rightarrow> int \<Rightarrow> world \<Rightarrow> world" where
  "got handle ident w = (if ident = - 1 then w else acquire (handle ident) w)"

text \<open>The pattern \<open>msk_destroy_buffer(trans); return ENOMEM;\<close> of the source.\<close>

definition destroy_and_return ::
  "int \<Rightarrow> msk_trans \<Rightarrow> world \<Rightarrow> (int \<times> msk_trans \<times> world) outcome" where
  "destroy_and_return ret tr w = obind (msk_destroy_buffer tr w) (\<lambda>w'. Returns (ret, tr, w'))"

text \<open>
  The source in its order. The failure tests of the three \<open>semget\<close> are \<open>!semid\<close>, as
  written. After a failed \<open>shmget\<close>, \<open>shmat\<close> or \<open>semget\<close> the source returns \<open>errno\<close>
  at once, without the call of \<open>msk_destroy_buffer\<close> that follows a failed \<open>malloc\<close>.
\<close>

definition msk_setup_buffer ::
  "setup_env \<Rightarrow> msk_trans \<Rightarrow> world \<Rightarrow> (int \<times> msk_trans \<times> world) outcome" where
  "msk_setup_buffer env tr w =
    (if \<not> malloc_recv_buf env then Returns (ENOMEM, tr\<lparr>recv_buf := Null\<rparr>, w) else
     let tr1 = tr\<lparr>recv_buf := Ref (replicate (nat (rq_depth tr)) zero_ctx)\<rparr>;
         w1 = acquire Heap_recv_buf w in
     if \<not> malloc_send_buf env then destroy_and_return ENOMEM (tr1\<lparr>send_buf := Null\<rparr>) w1 else
     let tr2 = tr1\<lparr>send_buf := Ref (replicate (nat (sq_depth tr1)) zero_ctx)\<rparr>;
         w2 = acquire Heap_send_buf w1 in
     if \<not> malloc_qp env then destroy_and_return ENOMEM (tr2\<lparr>qp := Null\<rparr>) w2 else
     let tr3 = tr2\<lparr>qp := Ref (fresh_qp env)\<rparr>;
         w3 = acquire Heap_qp w2 in
     if \<not> malloc_qp_context env then destroy_and_return ENOMEM (set_qp_context Null tr3) w3 else
     let w4 = acquire Heap_qp_context w3;
         m1 = (fresh_shm env)\<lparr>len := SHM_SIZE, shmkey := SHM_KEY, shmid := shmget_ret env\<rparr>;
         tr4 = set_qp_context (Ref m1) tr3;
         w5 = got Shm_segment (shmget_ret env) w4 in
     if shmid m1 = - 1 then Returns (errno_val env, tr4, w5) else
     let m2 = m1\<lparr>shm := (if shmat_ok env then Ref (attached_segment env) else Wild)\<rparr>;
         tr5 = set_qp_context (Ref m2) tr4;
         w6 = (if shmat_ok env then acquire (Shm_attachment (shmid m1)) w5 else w5) in
     if \<not> shmat_ok env then Returns (errno_val env, tr5, w6) else
     let m3 = m2\<lparr>shm_semkey := SHM_SEM_KEY, shm_semid := shm_semget_ret env\<rparr>;
         tr6 = set_qp_context (Ref m3) tr5;
         w7 = got Sem_set (shm_semget_ret env) w6 in
     if shm_semid m3 = 0 then Returns (errno_val env, tr6, w7) else
     if \<not> malloc_send_cq env then destroy_and_return ENOMEM (set_send_cq Null tr6) w7 else
     let tr7 = set_send_cq (Ref (fresh_send_cq env)) tr6;
         w8 = acquire Heap_send_cq w7 in
     if \<not> malloc_send_cq_context env then destroy_and_return ENOMEM (set_send_sem Null tr7) w8 else
     let w9 = acquire Heap_send_cq_context w8;
         s1 = (fresh_send_sem env)
                \<lparr>semkey := (if server tr7 \<noteq> 0 then SERVER_SEND_SEM_KEY else CLIENT_SEND_SEM_KEY),
                 semid := send_semget_ret env\<rparr>;
         tr8 = set_send_sem (Ref s1) tr7;
         w10 = got Sem_set (send_semget_ret env) w9 in
     if semid s1 = 0 then Returns (errno_val env, tr8, w10) else
     if \<not> malloc_recv_cq env then destroy_and_return ENOMEM (set_recv_cq Null tr8) w10 else
     let tr9 = set_recv_cq (Ref (fresh_recv_cq env)) tr8;
         w11 = acquire Heap_recv_cq w10 in
     if \<not> malloc_recv_cq_context env then destroy_and_return ENOMEM (set_recv_sem Null tr9) w11 else
     let w12 = acquire Heap_recv_cq_context w11;
         s2 = (fresh_recv_sem env)
                \<lparr>semkey := (if server tr9 \<noteq> 0 then CLIENT_SEND_SEM_KEY else SERVER_SEND_SEM_KEY),
                 semid := recv_semget_ret env\<rparr>;
         tr10 = set_recv_sem (Ref s2) tr9;
         w13 = got Sem_set (recv_semget_ret env) w12 in
     if semid s2 = 0 then Returns (errno_val env, tr10, w13) else
     Returns (0, tr10, w13))"

subsection \<open>Semaphore operations: msk\_semop\<close>

text \<open>
  \<open>msk_semop\<close> calls \<open>semop\<close> and returns what \<open>semop\<close> returns (\<open>os_ret\<close>, the answer of
  the operating system); a selector other than the three returns \<open>EINVAL\<close> without a call.
  The event \<open>Semop ident op\<close> records the identifier that the call passes and the operation.

  In all three branches the source reads the identifier as \<open>((msk_sem_t *) block)->semid\<close>,
  the second \<open>int\<close> of the block. For \<open>SEND_SEM\<close> and \<open>RECV_SEM\<close> the block is an
  \<open>msk_sem_t\<close> and the value read is its field \<open>semid\<close>. For \<open>SHM_SEM\<close> the block is
  \<open>trans->qp->qp_context\<close>, an \<open>msk_shm_t\<close>, whose second \<open>int\<close> is the field \<open>shmkey\<close>:
  the identifier passed is the key of the segment, not the field \<open>semid\<close> of the
  \<open>msk_shm_t\<close> (\<open>shm_semid\<close> here), where \<open>msk_setup_buffer\<close> stores the result of
  \<open>semget(SHM_SEM_KEY, ...)\<close>.
\<close>

definition msk_semop :: "int \<Rightarrow> msk_trans \<Rightarrow> int \<Rightarrow> int \<Rightarrow> world \<Rightarrow> (int \<times> world) outcome" where
  "msk_semop os_ret tr send op w =
     (if send = SEND_SEM then
        (case send_sem_of tr of None \<Rightarrow> Fault
         | Some s \<Rightarrow> Returns (os_ret, emit [Semop (semid s) op] w))
      else if send = RECV_SEM then
        (case recv_sem_of tr of None \<Rightarrow> Fault
         | Some s \<Rightarrow> Returns (os_ret, emit [Semop (semid s) op] w))
      else if send = SHM_SEM then
        (case shm_of tr of None \<Rightarrow> Fault
         | Some m \<Rightarrow> Returns (os_ret, emit [Semop (shmkey m) op] w))
      else Returns (EINVAL, w))"

subsection \<open>Connection establishment\<close>



text \<open>What \<open>msk_connect\<close> and \<open>msk_accept_one\<close> share after the setup: the lock, the two
  threads, and one operation \<open>+1\<close> through the selector \<open>SHM_SEM\<close>.\<close>

definition spawn_workers :: "int \<Rightarrow> msk_trans \<Rightarrow> world \<Rightarrow> world outcome" where
  "spawn_workers r tr w =
     obind (msk_semop r tr SHM_SEM 1
              (emit [Mutex_lock Trans_lock, Thread_create_send, Thread_create_recv] w))
       (\<lambda>(_, w1). Returns w1)"

definition msk_connect ::
  "setup_env \<Rightarrow> int \<Rightarrow> msk_trans option \<Rightarrow> world \<Rightarrow> (int \<times> msk_trans option \<times> world) outcome" where
  "msk_connect env r trp w =
     (case trp of
        None \<Rightarrow> Returns (EINVAL, None, w)
      | Some tr \<Rightarrow>
          obind (msk_setup_buffer env tr w) (\<lambda>(ret, tr1, w1).
          if ret \<noteq> 0 then Returns (ret, Some tr1, w1)
          else obind (spawn_workers r tr1 w1) (\<lambda>w2. Returns (0, Some tr1, w2))))"

text \<open>\<open>msk_accept_one\<close> returns a pointer: the first component of the result says whether
  it is the connection (\<open>True\<close>) or \<open>NULL\<close> (\<open>False\<close>).\<close>

definition msk_accept_one ::
  "setup_env \<Rightarrow> int \<Rightarrow> msk_trans option \<Rightarrow> world \<Rightarrow> (bool \<times> msk_trans option \<times> world) outcome" where
  "msk_accept_one env r trp w =
     (case trp of
        None \<Rightarrow> Returns (False, None, w)
      | Some tr \<Rightarrow>
          obind (msk_setup_buffer env tr w) (\<lambda>(ret, tr1, w1).
          if ret \<noteq> 0 then Returns (False, Some tr1, w1)
          else obind (spawn_workers r tr1 w1) (\<lambda>w2. Returns (True, Some tr1, w2))))"

subsection \<open>Context pools and pending queues\<close>

definition pool_of :: "msk_ctx list ptr \<Rightarrow> msk_ctx list" where
  "pool_of p = (case p of Ref xs \<Rightarrow> xs | Null \<Rightarrow> [] | Wild \<Rightarrow> [])"

text \<open>
  The scan \<open>for (i = 0, ctx = buf; i < depth; i++, ctx++) if (!ctx->used) break;\<close>:
  the index at which the loop stops, \<open>depth\<close> if no slot is free. The second argument is
  \<open>i\<close>, the third the number of iterations left. Reading a slot beyond the array is a fault.
\<close>

fun scan_free :: "msk_ctx list \<Rightarrow> nat \<Rightarrow> nat \<Rightarrow> nat outcome" where
  "scan_free pool i 0 = Returns i"
| "scan_free pool i (Suc k) =
     (if length pool \<le> i then Fault
      else if used (pool ! i) = 0 then Returns i
      else scan_free pool (Suc i) k)"

text \<open>Reads and writes of a queue node go to the bytes of its block, live or freed;
  an address that was never allocated is a fault.\<close>

definition read_node :: "nat \<Rightarrow> world \<Rightarrow> msk_list option" where
  "read_node a w = (case nodes w a of Live n \<Rightarrow> Some n | Freed n \<Rightarrow> Some n | Unallocated \<Rightarrow> None)"

definition store_next :: "nat \<Rightarrow> nat ptr \<Rightarrow> world \<Rightarrow> world outcome" where
  "store_next a v w =
     (case nodes w a of
        Live n \<Rightarrow> Returns (w\<lparr>nodes := (nodes w)(a := Live (n\<lparr>next_l := v\<rparr>))\<rparr>)
      | Freed n \<Rightarrow> Returns (w\<lparr>nodes := (nodes w)(a := Freed (n\<lparr>next_l := v\<rparr>))\<rparr>)
      | Unallocated \<Rightarrow> Fault)"

text \<open>
  The tail of both post functions, from \<open>elem = malloc(sizeof(msk_list_t))\<close> to
  \<open>sem->ctx_last = elem\<close>. The result of \<open>malloc\<close> is not tested before
  \<open>elem->ctx = ctx\<close>.
\<close>

definition enqueue :: "nat option \<Rightarrow> nat \<Rightarrow> msk_sem \<Rightarrow> world \<Rightarrow> (msk_sem \<times> world) outcome" where
  "enqueue elem i sem w =
     (case elem of
        None \<Rightarrow> Fault
      | Some a \<Rightarrow>
          (let w1 = (emit [Malloc_node elem] w)
                      \<lparr>nodes := (nodes w)(a := Live \<lparr>ctx = i, next_l = Null\<rparr>)\<rparr>
           in case ctx_last sem of
                Wild \<Rightarrow> Fault
              | Null \<Rightarrow> Returns (sem\<lparr>ctx_head := Ref a, ctx_last := Ref a\<rparr>, w1)
              | Ref l \<Rightarrow> obind (store_next l (Ref a) w1) (\<lambda>w2.
                         Returns (sem\<lparr>ctx_last := Ref a\<rparr>, w2))))"

text \<open>
  The end of both worker bodies: \<open>free(sem->ctx_head); sem->ctx_head = sem->ctx_head->next;
  if (!sem->ctx_head) sem->ctx_last = NULL;\<close>. The block is freed first and \<open>next\<close> is read
  from it afterwards, so the new head is what the allocator has left in the freed block.
  That content, \<open>junk\<close>, is an answer of the environment, like the result of \<open>malloc\<close>: an
  allocator that leaves a freed block as it was answers with the node itself, and one that
  keeps its own bookkeeping in freed blocks (as the GNU C library does, in the first two
  words) answers with that.
\<close>

definition dequeue :: "nat \<Rightarrow> msk_list \<Rightarrow> msk_sem \<Rightarrow> world \<Rightarrow> (msk_sem \<times> world) outcome" where
  "dequeue a junk sem w =
     (case nodes w a of
        Unallocated \<Rightarrow> Fault
      | Freed n \<Rightarrow> Fault
      | Live n \<Rightarrow>
          (let w1 = (emit [Free_node a] w)\<lparr>nodes := (nodes w)(a := Freed junk)\<rparr>
           in case read_node a w1 of
                None \<Rightarrow> Fault
              | Some n' \<Rightarrow>
                  Returns (sem\<lparr>ctx_head := next_l n',
                               ctx_last := (if next_l n' = Null then Null else ctx_last sem)\<rparr>,
                           w1)))"

definition release_slot :: "nat \<Rightarrow> msk_ctx list \<Rightarrow> msk_ctx list" where
  "release_slot i pool = pool[i := (pool ! i)\<lparr>used := 0\<rparr>]"

definition run_callback :: "thread \<Rightarrow> msk_ctx \<Rightarrow> world \<Rightarrow> world" where
  "run_callback t c w =
     (case callback c of
        None \<Rightarrow> w
      | Some f \<Rightarrow> emit [Callback t f (pdata c) (callback_arg c)] w)"

subsection \<open>Posting: msk\_post\_n\_send and msk\_post\_n\_recv\<close>

text \<open>
  The first argument is what \<open>malloc\<close> answers for the queue node. \<open>trans\<close> is used without
  a test. When no slot is free the caller suspends in \<open>pthread_cond_wait\<close>. The only
  \<open>return\<close> statement of either function is \<open>return 0\<close>.
\<close>

definition msk_post_n_send ::
  "nat option \<Rightarrow> msk_trans option \<Rightarrow> nat option \<Rightarrow> int \<Rightarrow> nat option \<Rightarrow> nat option \<Rightarrow>
   nat option \<Rightarrow> nat option \<Rightarrow> world \<Rightarrow> (int \<times> msk_trans option \<times> world) outcome" where
  "msk_post_n_send elem trp pdat num_sge mr cb err_cb cb_arg w =
     (case trp of
        None \<Rightarrow> Fault
      | Some tr \<Rightarrow>
          (let w1 = emit [Mutex_lock Trans_lock] w;
               pool = pool_of (send_buf tr)
           in obind (scan_free pool 0 (nat (sq_depth tr))) (\<lambda>i.
                if int i = sq_depth tr then Blocks
                else if length pool \<le> i then Fault
                else
                  (let tr1 = tr\<lparr>send_buf := Ref (pool[i :=
                               \<lparr>used = 1, pdata = pdat, callback = cb, callback_arg = cb_arg\<rparr>])\<rparr>
                   in case send_sem_of tr1 of
                        None \<Rightarrow> Fault
                      | Some sem \<Rightarrow>
                          obind (enqueue elem i sem w1) (\<lambda>(sem', w2).
                          Returns (0, Some (set_send_sem (Ref sem') tr1),
                                   emit [Cond_broadcast, Mutex_unlock Trans_lock] w2))))))"

definition msk_post_n_recv ::
  "nat option \<Rightarrow> msk_trans option \<Rightarrow> nat option \<Rightarrow> int \<Rightarrow> nat option \<Rightarrow> nat option \<Rightarrow>
   nat option \<Rightarrow> nat option \<Rightarrow> world \<Rightarrow> (int \<times> msk_trans option \<times> world) outcome" where
  "msk_post_n_recv elem trp pdat num_sge mr cb err_cb cb_arg w =
     (case trp of
        None \<Rightarrow> Fault
      | Some tr \<Rightarrow>
          (let w1 = emit [Mutex_lock Trans_lock] w;
               pool = pool_of (recv_buf tr)
           in obind (scan_free pool 0 (nat (rq_depth tr))) (\<lambda>i.
                if int i = rq_depth tr then Blocks
                else if length pool \<le> i then Fault
                else
                  (let tr1 = tr\<lparr>recv_buf := Ref (pool[i :=
                               \<lparr>used = 1, pdata = pdat, callback = cb, callback_arg = cb_arg\<rparr>])\<rparr>
                   in case recv_sem_of tr1 of
                        None \<Rightarrow> Fault
                      | Some sem \<Rightarrow>
                          obind (enqueue elem i sem w1) (\<lambda>(sem', w2).
                          Returns (0, Some (set_recv_sem (Ref sem') tr1),
                                   emit [Mutex_unlock Trans_lock] w2))))))"

subsection \<open>The worker loops: msk\_send\_thread and msk\_recv\_thread\<close>

text \<open>What \<open>shm->shm\<close> points to, and the assignment through it.\<close>

definition segment_of :: "msk_trans \<Rightarrow> segment option" where
  "segment_of tr =
     (case shm_of tr of
        None \<Rightarrow> None
      | Some m \<Rightarrow> (case shm m of Ref g \<Rightarrow> Some g | Null \<Rightarrow> None | Wild \<Rightarrow> None))"

definition set_segment :: "segment \<Rightarrow> msk_trans \<Rightarrow> msk_trans" where
  "set_segment g tr =
     tr\<lparr>qp := map_ref (\<lambda>q. q\<lparr>qp_context := map_ref (\<lambda>m. m\<lparr>shm := Ref g\<rparr>) (qp_context q)\<rparr>) (qp tr)\<rparr>"

text \<open>\<open>ctx->pdata\<close> dereferenced: the caller's \<open>msk_data_t\<close>, if the pointer is one.\<close>

definition deref_pdata :: "msk_ctx \<Rightarrow> world \<Rightarrow> (nat \<times> msk_data) option" where
  "deref_pdata c w =
     (case pdata c of
        None \<Rightarrow> None
      | Some p \<Rightarrow> (case datas w p of None \<Rightarrow> None | Some d \<Rightarrow> Some (p, d)))"

text \<open>
  \<open>shm->shm->size = ctx->pdata->size; memcpy(&shm->shm->data, ctx->pdata->data,
  ctx->pdata->size);\<close>
\<close>

definition copy_to_mailbox :: "nat \<Rightarrow> msk_data \<Rightarrow> segment \<Rightarrow> world \<Rightarrow> segment \<times> world" where
  "copy_to_mailbox p d g w =
     (g\<lparr>seg_size := size_d d,
        seg_data := (\<lambda>k. if k < unat (size_d d) then mem w (data d + k) else seg_data g k)\<rparr>,
      emit [Memcpy_to_shm p (data d) (unat (size_d d))] w)"

text \<open>
  \<open>ctx->pdata->size = shm->shm->size; memcpy(ctx->pdata->data, &shm->shm->data,
  ctx->pdata->size);\<close>
\<close>

definition copy_from_mailbox :: "nat \<Rightarrow> msk_data \<Rightarrow> segment \<Rightarrow> world \<Rightarrow> world" where
  "copy_from_mailbox p d g w =
     emit [Memcpy_from_shm p (data d) (unat (seg_size g))]
       (w\<lparr>datas := (datas w)(p := Some (d\<lparr>size_d := seg_size g\<rparr>)),
          mem := (\<lambda>a. if data d \<le> a \<and> a < data d + unat (seg_size g)
                       then seg_data g (a - data d) else mem w a)\<rparr>)"

text \<open>
  One pass through the body of the loop of \<open>msk_send_thread\<close>, after
  \<open>pthread_cond_wait\<close> has returned 0, in two parts. \<open>send_service\<close> is the body up to
  \<open>if (!sem->ctx_head) sem->ctx_last = NULL;\<close>; it says which slot it served, if the
  head of the queue was not \<open>NULL\<close>. The body ends with \<open>ctx->used = 0\<close> and the broadcast.
  The three integers are what the three calls of \<open>semop\<close> answer; the source discards them.
  \<open>junk\<close> is what the allocator leaves in the node that the pass frees.
\<close>

definition send_service ::
  "int \<times> int \<times> int \<Rightarrow> msk_list \<Rightarrow> msk_trans \<Rightarrow> world \<Rightarrow>
   (nat option \<times> msk_trans \<times> world) outcome" where
  "send_service rs junk tr w =
     (case send_sem_of tr of
        None \<Rightarrow> Fault
      | Some sem \<Rightarrow>
     (case ctx_head sem of
        Null \<Rightarrow> Returns (None, tr, w)
      | Wild \<Rightarrow> Fault
      | Ref a \<Rightarrow>
     (case read_node a w of
        None \<Rightarrow> Fault
      | Some n \<Rightarrow>
     (let pool = pool_of (send_buf tr); i = ctx n in
      if length pool \<le> i then Fault else
      obind (msk_semop (fst rs) tr SHM_SEM (- 1) w) (\<lambda>(_, w1).
     (case (segment_of tr, deref_pdata (pool ! i) w1) of
        (Some g, Some (p, d)) \<Rightarrow>
          (let (g', w2) = copy_to_mailbox p d g w1;
               tr1 = set_segment g' tr
           in obind (msk_semop (fst (snd rs)) tr1 SHM_SEM 1 w2) (\<lambda>(_, w3).
              obind (msk_semop (snd (snd rs)) tr1 SEND_SEM 1 w3) (\<lambda>(_, w4).
              obind (dequeue a junk sem (run_callback Sender (pool ! i) w4)) (\<lambda>(sem', w5).
              Returns (Some i, set_send_sem (Ref sem') tr1, w5)))))
      | _ \<Rightarrow> Fault))))))"

definition msk_send_thread_body ::
  "int \<times> int \<times> int \<Rightarrow> msk_list \<Rightarrow> msk_trans \<Rightarrow> world \<Rightarrow> (msk_trans \<times> world) outcome" where
  "msk_send_thread_body rs junk tr w =
     obind (send_service rs junk tr w) (\<lambda>(served, tr1, w1).
       case served of
         None \<Rightarrow> Returns (tr1, w1)
       | Some i \<Rightarrow>
           Returns (tr1\<lparr>send_buf := Ref (release_slot i (pool_of (send_buf tr1)))\<rparr>,
                    emit [Cond_broadcast] w1))"

text \<open>One pass through the body of the loop of \<open>msk_recv_thread\<close>, after the wait on
  the receive semaphore has returned 0, in the same two parts.\<close>

definition recv_service ::
  "int \<times> int \<Rightarrow> msk_list \<Rightarrow> msk_trans \<Rightarrow> world \<Rightarrow>
   (nat option \<times> msk_trans \<times> world) outcome" where
  "recv_service rs junk tr w =
     (case recv_sem_of tr of
        None \<Rightarrow> Fault
      | Some sem \<Rightarrow>
     (case ctx_head sem of
        Null \<Rightarrow> Returns (None, tr, w)
      | Wild \<Rightarrow> Fault
      | Ref a \<Rightarrow>
     (case read_node a w of
        None \<Rightarrow> Fault
      | Some n \<Rightarrow>
     (let pool = pool_of (recv_buf tr); i = ctx n in
      if length pool \<le> i then Fault else
      obind (msk_semop (fst rs) tr SHM_SEM (- 1) w) (\<lambda>(_, w1).
     (case (segment_of tr, deref_pdata (pool ! i) w1) of
        (Some g, Some (p, d)) \<Rightarrow>
          (let w2 = copy_from_mailbox p d g w1
           in obind (msk_semop (snd rs) tr SHM_SEM 1 w2) (\<lambda>(_, w3).
              obind (dequeue a junk sem (run_callback Receiver (pool ! i) w3)) (\<lambda>(sem', w4).
              Returns (Some i, set_recv_sem (Ref sem') tr, w4))))
      | _ \<Rightarrow> Fault))))))"

definition msk_recv_thread_body ::
  "int \<times> int \<Rightarrow> msk_list \<Rightarrow> msk_trans \<Rightarrow> world \<Rightarrow> (msk_trans \<times> world) outcome" where
  "msk_recv_thread_body rs junk tr w =
     obind (recv_service rs junk tr w) (\<lambda>(served, tr1, w1).
       case served of
         None \<Rightarrow> Returns (tr1, w1)
       | Some i \<Rightarrow>
           Returns (tr1\<lparr>recv_buf := Ref (release_slot i (pool_of (recv_buf tr1)))\<rparr>,
                    emit [Mutex_lock Trans_lock, Cond_broadcast, Mutex_unlock Trans_lock] w1))"

text \<open>
  The loop \<open>while (!pthread_cond_wait(&trans->cond, &trans->lock)) { ... }\<close> of the
  sender, over the answers of the environment: for each pass what \<open>pthread_cond_wait\<close>
  returns, the three answers of \<open>semop\<close> that the body discards, and what the allocator
  leaves in the node that the pass frees. When the answers run out the thread is still
  waiting.
\<close>

fun send_loop ::
  "(int \<times> (int \<times> int \<times> int) \<times> msk_list) list \<Rightarrow> msk_trans \<Rightarrow> world \<Rightarrow>
   (msk_trans \<times> world) outcome" where
  "send_loop [] tr w = Blocks"
| "send_loop (r # rs) tr w =
     (let w1 = emit [Cond_wait] w
      in if fst r = 0
         then obind (msk_send_thread_body (fst (snd r)) (snd (snd r)) tr w1)
                (\<lambda>(tr2, w2). send_loop rs tr2 w2)
         else Returns (tr, w1))"

text \<open>
  The loop \<open>while (!msk_semop(trans, RECV_SEM, -1)) { ... }\<close>, over the answers of the
  environment: for each pass the answer to the wait, the two answers of \<open>semop\<close> that the
  body discards, and what the allocator leaves in the node that the pass frees. When the
  answers run out the thread is still waiting.
\<close>

fun recv_loop ::
  "(int \<times> (int \<times> int) \<times> msk_list) list \<Rightarrow> msk_trans \<Rightarrow> world \<Rightarrow>
   (msk_trans \<times> world) outcome" where
  "recv_loop [] tr w = Blocks"
| "recv_loop (r # rs) tr w =
     obind (msk_semop (fst r) tr RECV_SEM (- 1) w) (\<lambda>(ret, w1).
       if ret = 0
       then obind (msk_recv_thread_body (fst (snd r)) (snd (snd r)) tr w1)
              (\<lambda>(tr2, w2). recv_loop rs tr2 w2)
       else Returns (tr, w1))"

text \<open>The test at the start of both threads: a null pointer on the way to the queue or
  to the segment makes the thread exit at once.\<close>

definition is_null :: "'a ptr \<Rightarrow> bool" where
  "is_null p = (case p of Null \<Rightarrow> True | Wild \<Rightarrow> False | Ref _ \<Rightarrow> False)"

definition cq_missing :: "ibv_cq ptr \<Rightarrow> bool outcome" where
  "cq_missing p =
     (case p of Null \<Rightarrow> Returns True | Wild \<Rightarrow> Fault | Ref c \<Rightarrow> Returns (is_null (cq_context c)))"

definition msk_send_thread ::
  "(int \<times> (int \<times> int \<times> int) \<times> msk_list) list \<Rightarrow> msk_trans option \<Rightarrow> world \<Rightarrow>
   (msk_trans option \<times> world) outcome" where
  "msk_send_thread rs trp w =
     (case trp of
        None \<Rightarrow> Returns (None, w)
      | Some tr \<Rightarrow>
     (case qp tr of
        Null \<Rightarrow> Returns (Some tr, w)
      | Wild \<Rightarrow> Fault
      | Ref q \<Rightarrow>
          obind (cq_missing (send_cq q)) (\<lambda>missing.
          if missing \<or> is_null (qp_context q) then Returns (Some tr, w)
          else obind (send_loop rs tr w) (\<lambda>(tr1, w1). Returns (Some tr1, w1)))))"

definition msk_recv_thread ::
  "(int \<times> (int \<times> int) \<times> msk_list) list \<Rightarrow> msk_trans option \<Rightarrow> world \<Rightarrow>
   (msk_trans option \<times> world) outcome" where
  "msk_recv_thread rs trp w =
     (case trp of
        None \<Rightarrow> Returns (None, w)
      | Some tr \<Rightarrow>
     (case qp tr of
        Null \<Rightarrow> Returns (Some tr, w)
      | Wild \<Rightarrow> Fault
      | Ref q \<Rightarrow>
          obind (cq_missing (recv_cq q)) (\<lambda>missing.
          if missing \<or> is_null (qp_context q) then Returns (Some tr, w)
          else
            obind (recv_loop rs tr w) (\<lambda>(tr1, w1).
            Returns (Some (tr1\<lparr>state := MSK_CLOSED\<rparr>),
                     (case disconnect_callback tr1 of
                        None \<Rightarrow> w1
                      | Some f \<Rightarrow> emit [Disconnect_callback f] w1))))))"

subsection \<open>The pending queue as a list\<close>

text \<open>\<open>chain h p as\<close>: following \<open>next\<close> from \<open>p\<close> visits the live nodes \<open>as\<close> in this order
  and ends at \<open>NULL\<close>.\<close>

fun chain :: "(nat \<Rightarrow> cell) \<Rightarrow> nat ptr \<Rightarrow> nat list \<Rightarrow> bool" where
  "chain h p [] = (p = Null)"
| "chain h p (a # as) =
     (p = Ref a \<and> (case h a of Live n \<Rightarrow> chain h (next_l n) as
                     | Freed n \<Rightarrow> False | Unallocated \<Rightarrow> False))"





subsection \<open>What a trace shows\<close>

text \<open>The \<open>msk_data_t\<close> whose bytes were placed into the mailbox, in the order of the
  copies.\<close>

fun mailbox_puts :: "event list \<Rightarrow> nat option list" where
  "mailbox_puts [] = []"
| "mailbox_puts (e # es) =
     (case e of Memcpy_to_shm p src n \<Rightarrow> Some p # mailbox_puts es | _ \<Rightarrow> mailbox_puts es)"

text \<open>The completion callbacks called in a thread, in the order of the calls.\<close>

fun completions :: "thread \<Rightarrow> event list \<Rightarrow> (nat option \<times> nat option \<times> nat option) list" where
  "completions t [] = []"
| "completions t (e # es) =
     (case e of
        Callback t' f p arg \<Rightarrow>
          (if t' = t then (p, Some f, arg) # completions t es else completions t es)
      | _ \<Rightarrow> completions t es)"

text \<open>The disconnect callbacks called, in the order of the calls.\<close>

fun disconnects :: "event list \<Rightarrow> nat list" where
  "disconnects [] = []"
| "disconnects (e # es) =
     (case e of Disconnect_callback f \<Rightarrow> f # disconnects es | _ \<Rightarrow> disconnects es)"


subsection \<open>Example states\<close>

text \<open>An environment in which every call succeeds and fresh blocks are filled with zeroes,
  a connection as \<open>msk_init\<close> leaves it (queue depths 2), and the world after that call.\<close>

definition zero_sem :: msk_sem where
  "zero_sem = \<lparr>semkey = 0, semid = 0, ctx_head = Null, ctx_last = Null\<rparr>"

definition zero_segment :: segment where
  "zero_segment = \<lparr>seg_size = 0, seg_data = (\<lambda>_. 0)\<rparr>"

definition good_env :: setup_env where
  "good_env =
     \<lparr>malloc_recv_buf = True, malloc_send_buf = True, malloc_qp = True,
      malloc_qp_context = True, shmget_ret = 5, shmat_ok = True, shm_semget_ret = 6,
      malloc_send_cq = True, malloc_send_cq_context = True, send_semget_ret = 7,
      malloc_recv_cq = True, malloc_recv_cq_context = True, recv_semget_ret = 8,
      errno_val = 28,
      fresh_qp = \<lparr>qp_context = Null, send_cq = Null, recv_cq = Null\<rparr>,
      fresh_shm = \<lparr>shmid = 0, shmkey = 0, len = 0, shm = Null, shm_semkey = 0, shm_semid = 0\<rparr>,
      fresh_send_cq = \<lparr>cq_context = Null\<rparr>,
      fresh_send_sem = zero_sem,
      fresh_recv_cq = \<lparr>cq_context = Null\<rparr>,
      fresh_recv_sem = zero_sem,
      attached_segment = zero_segment\<rparr>"

definition init_trans :: msk_trans where
  "init_trans = zeroed_trans\<lparr>timeout := 3000000, sq_depth := 2, rq_depth := 2,
                             disconnect_callback := Some 9\<rparr>"

definition init_world :: world where
  "init_world = acquire Heap_trans world0"


text \<open>The connection after a setup in which every call succeeded: pools of two free
  slots, both queues empty, the segment attached.\<close>

definition ready_trans :: msk_trans where
  "ready_trans =
     init_trans
       \<lparr>send_buf := Ref [zero_ctx, zero_ctx],
        recv_buf := Ref [zero_ctx, zero_ctx],
        qp := Ref \<lparr>qp_context = Ref \<lparr>shmid = 5, shmkey = SHM_KEY, len = SHM_SIZE,
                                     shm = Ref zero_segment,
                                     shm_semkey = SHM_SEM_KEY, shm_semid = 6\<rparr>,
                   send_cq = Ref \<lparr>cq_context = Ref (zero_sem\<lparr>semkey := CLIENT_SEND_SEM_KEY, semid := 7\<rparr>)\<rparr>,
                   recv_cq = Ref \<lparr>cq_context = Ref (zero_sem\<lparr>semkey := SERVER_SEND_SEM_KEY, semid := 8\<rparr>)\<rparr>\<rparr>\<rparr>"

text \<open>The memory of the caller: three \<open>msk_data_t\<close> at 50, 51 and 52, for buffers of 4, 8
  and 16 bytes at the addresses 100, 200 and 300.\<close>

definition ready_world :: world where
  "ready_world =
     world0\<lparr>datas := (\<lambda>p. if p = 50 then Some \<lparr>size_d = 4, data = 100\<rparr>
                         else if p = 51 then Some \<lparr>size_d = 8, data = 200\<rparr>
                         else if p = 52 then Some \<lparr>size_d = 16, data = 300\<rparr>
                         else None)\<rparr>"

text \<open>A connection with one posted receive: slot 0 of the receive pool holds the caller's
  \<open>msk_data_t\<close> at 50, whose buffer of 4 bytes starts at address 100, and the queue node
  at 10 points to the slot. The mailbox holds a message of 8 bytes, 1 to 8.\<close>

definition mailbox8 :: segment where
  "mailbox8 = \<lparr>seg_size = 8, seg_data = (\<lambda>k. of_nat (k + 1))\<rparr>"

definition posted_trans :: msk_trans where
  "posted_trans =
     init_trans
       \<lparr>send_buf := Ref [zero_ctx, zero_ctx],
        recv_buf := Ref [\<lparr>used = 1, pdata = Some 50, callback = Some 1, callback_arg = Some 2\<rparr>,
                         zero_ctx],
        qp := Ref \<lparr>qp_context = Ref \<lparr>shmid = 5, shmkey = SHM_KEY, len = SHM_SIZE,
                                     shm = Ref mailbox8,
                                     shm_semkey = SHM_SEM_KEY, shm_semid = 6\<rparr>,
                   send_cq = Ref \<lparr>cq_context = Ref (zero_sem\<lparr>semkey := CLIENT_SEND_SEM_KEY, semid := 7\<rparr>)\<rparr>,
                   recv_cq = Ref \<lparr>cq_context =
                     Ref \<lparr>semkey = SERVER_SEND_SEM_KEY, semid = 8,
                          ctx_head = Ref 10, ctx_last = Ref 10\<rparr>\<rparr>\<rparr>\<rparr>"

definition posted_world :: world where
  "posted_world =
     world0\<lparr>nodes := (\<lambda>a. if a = 10 then Live \<lparr>ctx = 0, next_l = Null\<rparr> else Unallocated),
            datas := (\<lambda>p. if p = 50 then Some \<lparr>size_d = 4, data = 100\<rparr> else None)\<rparr>"

text \<open>
  Sends on the connection \<open>ready_trans\<close>. The caller's memory holds at every address the
  low byte of the address, so the 4 bytes of the first message are 100 to 103 and the 8
  bytes of the second 200 to 207. The caller posts the \<open>msk_data_t\<close> at 50 with the
  callback 1 and then the one at 51 with the callback 2; \<open>malloc\<close> returns the queue nodes
  at 10 and 11.
\<close>

definition sending_world :: world where
  "sending_world = ready_world\<lparr>mem := (\<lambda>a. of_nat a)\<rparr>"

definition first_post :: "(int \<times> msk_trans option \<times> world) outcome" where
  "first_post =
     msk_post_n_send (Some 10) (Some ready_trans) (Some 50) 1 None (Some 1) None None
       sending_world"

definition two_sends_posted :: "(int \<times> msk_trans option \<times> world) outcome" where
  "two_sends_posted =
     obind first_post (\<lambda>(ret, trp, w).
       msk_post_n_send (Some 11) trp (Some 51) 1 None (Some 2) None None w)"

text \<open>The sender then wakes up and runs the body of its loop once, with every \<open>semop\<close>
  answering 0; \<open>junk\<close> is what \<open>free\<close> leaves in the node.\<close>

definition sender_pass ::
  "msk_list \<Rightarrow> (int \<times> msk_trans option \<times> world) outcome \<Rightarrow> (msk_trans \<times> world) outcome" where
  "sender_pass junk r =
     obind r (\<lambda>(ret, trp, w).
       case trp of None \<Rightarrow> Fault | Some tr \<Rightarrow> msk_send_thread_body (0, 0, 0) junk tr w)"

text \<open>
  What the allocator of the GNU C library leaves in a freed block of this size: in the
  first word its own link to the next free block, in the second a key. Neither is null and
  neither is the address of a slot or of a queue node. The slot index 7 lies outside the
  pools of \<open>ready_trans\<close>.
\<close>

definition freed_bytes :: msk_list where
  "freed_bytes = \<lparr>ctx = 7, next_l = Wild\<rparr>"

subsection \<open>The remote read and write entry points\<close>

definition msk_post_n_read ::
  "msk_trans option \<Rightarrow> nat option \<Rightarrow> int \<Rightarrow> nat option \<Rightarrow> nat option \<Rightarrow> nat option \<Rightarrow>
   nat option \<Rightarrow> nat option \<Rightarrow> world \<Rightarrow> (int \<times> msk_trans option \<times> world) outcome" where
  "msk_post_n_read tr dat num_sge mr rloc cb err_cb cb_arg w = Returns (0, tr, w)"

definition msk_post_n_write ::
  "msk_trans option \<Rightarrow> nat option \<Rightarrow> int \<Rightarrow> nat option \<Rightarrow> nat option \<Rightarrow> nat option \<Rightarrow>
   nat option \<Rightarrow> nat option \<Rightarrow> world \<Rightarrow> (int \<times> msk_trans option \<times> world) outcome" where
  "msk_post_n_write tr dat num_sge mr rloc cb err_cb cb_arg w = Returns (0, tr, w)"

definition msk_wait_n_read ::
  "msk_trans option \<Rightarrow> nat option \<Rightarrow> int \<Rightarrow> nat option \<Rightarrow> nat option \<Rightarrow> world \<Rightarrow>
   (int \<times> msk_trans option \<times> world) outcome" where
  "msk_wait_n_read tr dat num_sge mr rloc w = Returns (0, tr, w)"

definition msk_wait_n_write ::
  "msk_trans option \<Rightarrow> nat option \<Rightarrow> int \<Rightarrow> nat option \<Rightarrow> nat option \<Rightarrow> world \<Rightarrow>
   (int \<times> msk_trans option \<times> world) outcome" where
  "msk_wait_n_write tr dat num_sge mr rloc w = Returns (0, tr, w)"

section \<open>Theorems\<close>

subsection \<open>Pointer chains and semaphore operations\<close>

lemmas chain_defs = shm_of_def cq_sem_def send_sem_of_def recv_sem_of_def segment_of_def
  set_send_sem_def set_recv_sem_def set_segment_def map_ref_def

lemma pool_of_Ref: "pool_of (Ref xs) = xs"
  by (simp add: pool_of_def)

lemma send_sem_of_set_send_sem:
  "send_sem_of tr = Some s \<Longrightarrow> send_sem_of (set_send_sem (Ref s') tr) = Some s'"
  by (auto simp: chain_defs split: ptr.splits)

lemma recv_sem_of_set_recv_sem:
  "recv_sem_of tr = Some s \<Longrightarrow> recv_sem_of (set_recv_sem (Ref s') tr) = Some s'"
  by (auto simp: chain_defs split: ptr.splits)

lemma segment_of_set_segment:
  "segment_of tr = Some g \<Longrightarrow> segment_of (set_segment g' tr) = Some g'"
  by (auto simp: chain_defs split: ptr.splits option.splits)

lemma set_send_sem_frame:
  "recv_sem_of (set_send_sem v tr) = recv_sem_of tr"
  "shm_of (set_send_sem v tr) = shm_of tr"
  "segment_of (set_send_sem v tr) = segment_of tr"
  "send_buf (set_send_sem v tr) = send_buf tr"
  "recv_buf (set_send_sem v tr) = recv_buf tr"
  "sq_depth (set_send_sem v tr) = sq_depth tr"
  "rq_depth (set_send_sem v tr) = rq_depth tr"
  "state (set_send_sem v tr) = state tr"
  "disconnect_callback (set_send_sem v tr) = disconnect_callback tr"
  by (auto simp: chain_defs split: ptr.splits option.splits)

lemma set_recv_sem_frame:
  "send_sem_of (set_recv_sem v tr) = send_sem_of tr"
  "shm_of (set_recv_sem v tr) = shm_of tr"
  "segment_of (set_recv_sem v tr) = segment_of tr"
  "send_buf (set_recv_sem v tr) = send_buf tr"
  "recv_buf (set_recv_sem v tr) = recv_buf tr"
  "sq_depth (set_recv_sem v tr) = sq_depth tr"
  "rq_depth (set_recv_sem v tr) = rq_depth tr"
  "state (set_recv_sem v tr) = state tr"
  "disconnect_callback (set_recv_sem v tr) = disconnect_callback tr"
  by (auto simp: chain_defs split: ptr.splits option.splits)

lemma set_segment_frame:
  "send_sem_of (set_segment g tr) = send_sem_of tr"
  "recv_sem_of (set_segment g tr) = recv_sem_of tr"
  "send_buf (set_segment g tr) = send_buf tr"
  "recv_buf (set_segment g tr) = recv_buf tr"
  "sq_depth (set_segment g tr) = sq_depth tr"
  "rq_depth (set_segment g tr) = rq_depth tr"
  "state (set_segment g tr) = state tr"
  "disconnect_callback (set_segment g tr) = disconnect_callback tr"
  by (auto simp: chain_defs split: ptr.splits option.splits)

lemma shm_of_set_segment:
  "(shm_of (set_segment g tr) = None) = (shm_of tr = None)"
  by (auto simp: chain_defs split: ptr.splits option.splits)

lemma buf_update_frame:
  "send_sem_of (tr\<lparr>send_buf := x\<rparr>) = send_sem_of tr"
  "recv_sem_of (tr\<lparr>send_buf := x\<rparr>) = recv_sem_of tr"
  "shm_of (tr\<lparr>send_buf := x\<rparr>) = shm_of tr"
  "segment_of (tr\<lparr>send_buf := x\<rparr>) = segment_of tr"
  "send_sem_of (tr\<lparr>recv_buf := x\<rparr>) = send_sem_of tr"
  "recv_sem_of (tr\<lparr>recv_buf := x\<rparr>) = recv_sem_of tr"
  "shm_of (tr\<lparr>recv_buf := x\<rparr>) = shm_of tr"
  "segment_of (tr\<lparr>recv_buf := x\<rparr>) = segment_of tr"
  by (simp_all add: chain_defs)

lemma emit_fields:
  "nodes (emit es w) = nodes w" "datas (emit es w) = datas w" "mem (emit es w) = mem w"
  "held (emit es w) = held w" "trace (emit es w) = trace w @ es"
  by (simp_all add: emit_def)

lemma msk_semop_frame:
  "msk_semop r tr send op w = Returns (x, w') \<Longrightarrow>
     nodes w' = nodes w \<and> datas w' = datas w \<and> mem w' = mem w \<and> held w' = held w"
  by (auto simp: msk_semop_def emit_fields split: if_splits option.splits)

lemma msk_semop_shm:
  "shm_of tr = Some m \<Longrightarrow> msk_semop r tr SHM_SEM op w = Returns (r, emit [Semop (shmkey m) op] w)"
  by (simp add: msk_semop_def SHM_SEM_def SEND_SEM_def RECV_SEM_def)

lemma msk_semop_send:
  "send_sem_of tr = Some s \<Longrightarrow> msk_semop r tr SEND_SEM op w = Returns (r, emit [Semop (semid s) op] w)"
  by (simp add: msk_semop_def SHM_SEM_def SEND_SEM_def RECV_SEM_def)

lemma msk_semop_recv:
  "recv_sem_of tr = Some s \<Longrightarrow> msk_semop r tr RECV_SEM op w = Returns (r, emit [Semop (semid s) op] w)"
  by (simp add: msk_semop_def SHM_SEM_def SEND_SEM_def RECV_SEM_def)

lemma msk_semop_shm_None:
  "shm_of tr = None \<Longrightarrow> msk_semop r tr SHM_SEM op w = Fault"
  by (simp add: msk_semop_def SHM_SEM_def SEND_SEM_def RECV_SEM_def)

lemma msk_semop_not_Blocks: "msk_semop r tr send op w \<noteq> Blocks"
  by (simp add: msk_semop_def split: option.splits)

lemma disconnects_append: "disconnects (xs @ ys) = disconnects xs @ disconnects ys"
  by (induction xs) (auto split: event.splits)

lemma msk_semop_disconnects:
  "msk_semop r tr send op w = Returns (x, w') \<Longrightarrow> disconnects (trace w') = disconnects (trace w)"
  by (auto simp: msk_semop_def emit_fields disconnects_append split: if_splits option.splits)

subsection \<open>One pass of the receiver\<close>

lemma run_callback_fields:
  "nodes (run_callback t c w) = nodes w" "datas (run_callback t c w) = datas w"
  "mem (run_callback t c w) = mem w" "held (run_callback t c w) = held w"
  "trace (run_callback t c w) = trace w @ (case callback c of None \<Rightarrow> []
       | Some f \<Rightarrow> [Callback t f (pdata c) (callback_arg c)])"
  by (simp_all add: run_callback_def emit_def split: option.splits)


lemma copy_from_mailbox_fields:
  "nodes (copy_from_mailbox p d g w) = nodes w"
  "held (copy_from_mailbox p d g w) = held w"
  "trace (copy_from_mailbox p d g w) = trace w @ [Memcpy_from_shm p (data d) (unat (seg_size g))]"
  "datas (copy_from_mailbox p d g w) = (datas w)(p := Some (d\<lparr>size_d := seg_size g\<rparr>))"
  "mem (copy_from_mailbox p d g w) =
     (\<lambda>a. if data d \<le> a \<and> a < data d + unat (seg_size g) then seg_data g (a - data d) else mem w a)"
  by (simp_all add: copy_from_mailbox_def emit_def)


lemma dequeue_Returns:
  "dequeue a junk sem w = Returns (sem', w') \<Longrightarrow>
     disconnects (trace w') = disconnects (trace w)"
  by (auto simp: dequeue_def Let_def read_node_def emit_fields disconnects_append
           split: cell.splits option.splits)

lemma dequeue_not_Blocks: "dequeue a junk sem w \<noteq> Blocks"
  by (simp add: dequeue_def Let_def read_node_def split: cell.splits)

lemma obind_Returns:
  "(obind m f = Returns y) = (\<exists>x. m = Returns x \<and> f x = Returns y)"
  by (cases m) (simp_all add: obind_def)

lemma obind_Blocks:
  "(obind m f = Blocks) = (m = Blocks \<or> (\<exists>x. m = Returns x \<and> f x = Blocks))"
  by (cases m) (simp_all add: obind_def)

lemma obind_Fault:
  "(obind m f = Fault) = (m = Fault \<or> (\<exists>x. m = Returns x \<and> f x = Fault))"
  by (cases m) (simp_all add: obind_def)


subsection \<open>The example states\<close>




lemma shm_of_ready:
  "shm_of ready_trans = Some \<lparr>shmid = 5, shmkey = SHM_KEY, len = SHM_SIZE, shm = Ref zero_segment,
                               shm_semkey = SHM_SEM_KEY, shm_semid = 6\<rparr>"
  by (simp add: shm_of_def ready_trans_def init_trans_def zeroed_trans_def)

lemma recv_sem_of_ready:
  "recv_sem_of ready_trans = Some (zero_sem\<lparr>semkey := SERVER_SEND_SEM_KEY, semid := 8\<rparr>)"
  by (simp add: recv_sem_of_def cq_sem_def ready_trans_def init_trans_def zeroed_trans_def)

lemma shm_of_posted:
  "shm_of posted_trans = Some \<lparr>shmid = 5, shmkey = SHM_KEY, len = SHM_SIZE, shm = Ref mailbox8,
                               shm_semkey = SHM_SEM_KEY, shm_semid = 6\<rparr>"
  by (simp add: shm_of_def posted_trans_def init_trans_def zeroed_trans_def)

lemma recv_sem_of_posted:
  "recv_sem_of posted_trans =
     Some \<lparr>semkey = SERVER_SEND_SEM_KEY, semid = 8, ctx_head = Ref 10, ctx_last = Ref 10\<rparr>"
  by (simp add: recv_sem_of_def cq_sem_def posted_trans_def init_trans_def zeroed_trans_def)

lemma scan_free_numeral:
  "scan_free pool i (numeral k) =
     (if length pool \<le> i then Fault
      else if used (pool ! i) = 0 then Returns i
      else scan_free pool (Suc i) (pred_numeral k))"
  by (simp add: numeral_eq_Suc)

lemmas eval_defs = ready_trans_def ready_world_def sending_world_def init_trans_def
  zeroed_trans_def world0_def zero_ctx_def zero_sem_def zero_segment_def freed_bytes_def
  first_post_def two_sends_posted_def sender_pass_def
  msk_post_n_send_def msk_send_thread_body_def
  send_service_def enqueue_def dequeue_def store_next_def read_node_def release_slot_def
  run_callback_def copy_to_mailbox_def deref_pdata_def msk_semop_def emit_def obind_def
  pool_of_def chain_defs Let_def SHM_SEM_def SEND_SEM_def RECV_SEM_def SHM_KEY_def
  scan_free_numeral

text \<open>
  The identifier that \<open>msk_semop\<close> passes for the selector \<open>SHM_SEM\<close> on the connection
  \<open>ready_trans\<close>, whose setup got the identifier 6 from \<open>semget(SHM_SEM_KEY, ...)\<close>: it is
  4213, the key of the segment.
\<close>

lemma shm_sem_selector_passes_shmkey:
  "msk_semop 0 ready_trans SHM_SEM (- 1) world0 = Returns (0, emit [Semop 4213 (- 1)] world0)
   \<and> map_option shm_semid (shm_of ready_trans) = Some 6"
  by (simp add: msk_semop_shm [OF shm_of_ready] shm_of_ready SHM_KEY_def)

text \<open>
  With an allocator that leaves a freed block as it was, two passes of the sender serve the
  two posted sends in the order of the posts.
\<close>

lemma two_sends_when_free_keeps_the_bytes:
  "(case sender_pass \<lparr>ctx = 0, next_l = Ref 11\<rparr> two_sends_posted of
      Returns (tr, w) \<Rightarrow>
        (case msk_send_thread_body (0, 0, 0) \<lparr>ctx = 1, next_l = Null\<rparr> tr w of
           Returns (tr', w') \<Rightarrow>
             mailbox_puts (trace w') = [Some 50, Some 51]
             \<and> completions Sender (trace w') = [(Some 50, Some 1, None), (Some 51, Some 2, None)]
         | Fault \<Rightarrow> False
         | Blocks \<Rightarrow> False)
    | Fault \<Rightarrow> False
    | Blocks \<Rightarrow> False)"
  by (simp add: eval_defs)

subsection \<open>The stubs\<close>

text \<open>
  C2. For every input, each of \<open>post_n_read\<close>, \<open>post_n_write\<close>, \<open>wait_n_read\<close> and
  \<open>wait_n_write\<close> returns 0, and the connection and the whole state are what they were:
  no byte of memory is copied and the trace gains no event, so neither the completion
  callback nor the error callback is called.
\<close>

theorem C2_remote_stubs_are_noops:
  "msk_post_n_read tr dat num_sge mr rloc cb err_cb cb_arg w = Returns (0, tr, w)
   \<and> msk_post_n_write tr dat num_sge mr rloc cb err_cb cb_arg w = Returns (0, tr, w)
   \<and> msk_wait_n_read tr dat num_sge mr rloc w = Returns (0, tr, w)
   \<and> msk_wait_n_write tr dat num_sge mr rloc w = Returns (0, tr, w)"
  by (simp add: msk_post_n_read_def msk_post_n_write_def msk_wait_n_read_def
      msk_wait_n_write_def)

subsection \<open>Resource setup\<close>

text \<open>
  C3 (evaluation of the source where the statement fails). \<open>shmget\<close> fails with \<open>errno\<close> 28
  after the four allocations before it succeeded: \<open>msk_setup_buffer\<close> returns 28 and the
  process still holds the two pools, the queue pair and the block of the segment
  descriptor, none of which it held before the call.
\<close>

theorem C3_shmget_failure_keeps_blocks:
  "held init_world = [Heap_trans]
   \<and> (case msk_setup_buffer (good_env\<lparr>shmget_ret := - 1\<rparr>) init_trans init_world of
        Returns (ret, tr, w) \<Rightarrow>
          ret = 28
          \<and> held w = [Heap_trans, Heap_recv_buf, Heap_send_buf, Heap_qp, Heap_qp_context]
      | Fault \<Rightarrow> False
      | Blocks \<Rightarrow> False)"
  by (simp add: msk_setup_buffer_def good_env_def init_trans_def init_world_def
      zeroed_trans_def Let_def acquire_def got_def world0_def set_qp_context_def map_ref_def)

subsection \<open>Creation\<close>

text \<open>
  C9. When the allocation and the two initialisations succeed, \<open>msk_init\<close> returns 0 with a
  connection whose state is \<open>MSK_INIT\<close>, whose timeout is 3000000 if the attribute is 0 and
  the attribute otherwise, whose send and receive queue depths are 5 if the attribute is 0
  and the attribute otherwise, whose role and disconnect callback are the attribute's, and
  whose other fields are the zeroes of \<open>memset\<close>.
\<close>

theorem C9_init_applies_defaults:
  assumes "malloc_trans env" and "mutex_init_ret env = 0" and "cond_init_ret env = 0"
  shows "\<exists>tr w'. msk_init env (Some a) w = Returns (0, Some tr, w')
           \<and> state tr = MSK_INIT
           \<and> timeout tr = (if attr_timeout a = 0 then 3000000 else attr_timeout a)
           \<and> sq_depth tr = (if attr_sq_depth a = 0 then 5 else attr_sq_depth a)
           \<and> rq_depth tr = (if attr_rq_depth a = 0 then 5 else attr_rq_depth a)
           \<and> server tr = attr_server a
           \<and> disconnect_callback tr = attr_disconnect_callback a
           \<and> send_buf tr = Null \<and> recv_buf tr = Null \<and> qp tr = Null"
  using assms by (simp add: msk_init_def zeroed_trans_def Let_def)

theorem C9_init_applies_defaults_witness:
  "\<exists>tr w'. msk_init \<lparr>malloc_trans = True, mutex_init_ret = 0, cond_init_ret = 0\<rparr>
             (Some \<lparr>attr_server = 1, attr_timeout = 0, attr_sq_depth = 0, attr_rq_depth = 7,
                    attr_disconnect_callback = Some 3\<rparr>) world0 = Returns (0, Some tr, w')
           \<and> state tr = MSK_INIT \<and> timeout tr = 3000000 \<and> sq_depth tr = 5 \<and> rq_depth tr = 7
           \<and> server tr = 1 \<and> disconnect_callback tr = Some 3
           \<and> send_buf tr = Null \<and> recv_buf tr = Null \<and> qp tr = Null"
  using C9_init_applies_defaults
    [of "\<lparr>malloc_trans = True, mutex_init_ret = 0, cond_init_ret = 0\<rparr>"
        "\<lparr>attr_server = 1, attr_timeout = 0, attr_sq_depth = 0, attr_rq_depth = 7,
          attr_disconnect_callback = Some 3\<rparr>" world0]
  by simp

subsection \<open>Connection establishment\<close>




subsection \<open>Null connections\<close>

text \<open>
  C7 (as amended). With a null connection \<open>msk_connect\<close> returns \<open>EINVAL\<close> and
  \<open>msk_accept_one\<close> returns \<open>NULL\<close>, and the state is what it was.
\<close>

theorem C7_null_connection_connect_accept:
  "msk_connect env r None w = Returns (EINVAL, None, w)
   \<and> msk_accept_one env r None w = Returns (False, None, w)"
  by (simp add: msk_connect_def msk_accept_one_def)

text \<open>
  C7 (the statement as written fails). \<open>msk_post_n_send\<close> with a null connection does not
  return \<open>EINVAL\<close> with the state unchanged: it dereferences the pointer.
\<close>

theorem C7_post_send_null_is_not_einval:
  "msk_post_n_send (Some 1) None (Some 100) 1 None (Some 2) (Some 3) None world0
     \<noteq> Returns (EINVAL, None, world0)"
  by (simp add: msk_post_n_send_def)

subsection \<open>The return value of a post\<close>

lemma post_send_returns_zero_only:
  "msk_post_n_send elem trp pdat num_sge mr cb err_cb cb_arg w = Returns (ret, trp', w')
     \<Longrightarrow> ret = 0 \<and> elem \<noteq> None"
  by (auto simp: msk_post_n_send_def Let_def obind_def enqueue_def
           split: option.splits outcome.splits if_splits)

lemma post_recv_returns_zero_only:
  "msk_post_n_recv elem trp pdat num_sge mr cb err_cb cb_arg w = Returns (ret, trp', w')
     \<Longrightarrow> ret = 0 \<and> elem \<noteq> None"
  by (auto simp: msk_post_n_recv_def Let_def obind_def enqueue_def
           split: option.splits outcome.splits if_splits)

text \<open>
  C8 (evaluation of the source where the statement fails). The allocation of the queue
  node fails in a call of \<open>msk_post_n_send\<close> on a connection with free slots: no value
  is returned, the null pointer is dereferenced.
\<close>

theorem C8_post_send_node_allocation_failure:
  "msk_post_n_send None (Some ready_trans) (Some 100) 1 None (Some 2) (Some 3) None world0 = Fault"
  by (simp add: msk_post_n_send_def ready_trans_def init_trans_def zeroed_trans_def pool_of_def
      Let_def obind_def send_sem_of_def cq_sem_def enqueue_def eval_nat_numeral zero_ctx_def)

subsection \<open>The length of a received message\<close>



subsection \<open>The end of the receiver\<close>

text \<open>A pass of the receiver never suspends the thread, and when it returns the chain of
  pointers to the receive queue is still there, the disconnect callback is the one
  registered, and no disconnect callback has been called. On an empty queue the pass does
  nothing.\<close>

lemma recv_service_not_Blocks: "recv_service rs junk tr w \<noteq> Blocks"
  by (auto simp: recv_service_def Let_def obind_Blocks msk_semop_not_Blocks dequeue_not_Blocks
           split: option.splits ptr.splits prod.splits)

lemma recv_body_not_Blocks: "msk_recv_thread_body rs junk tr w \<noteq> Blocks"
  by (auto simp: msk_recv_thread_body_def obind_Blocks recv_service_not_Blocks
           split: option.splits)

lemma recv_service_keeps:
  assumes r: "recv_service rs junk tr w = Returns (served, tr1, w1)"
  shows "recv_sem_of tr1 \<noteq> None
       \<and> disconnect_callback tr1 = disconnect_callback tr
       \<and> disconnects (trace w1) = disconnects (trace w)"
proof -
  from r obtain sem where sem: "recv_sem_of tr = Some sem"
    by (cases "recv_sem_of tr") (simp_all add: recv_service_def)
  show ?thesis
  proof (cases "ctx_head sem")
    case Wild
    with r sem show ?thesis by (simp add: recv_service_def)
  next
    case Null
    with r sem show ?thesis by (auto simp: recv_service_def)
  next
    case (Ref a)
    let ?pool = "pool_of (recv_buf tr)"
    from r sem Ref obtain n where rn: "read_node a w = Some n"
      by (cases "read_node a w") (simp_all add: recv_service_def)
    from r sem Ref rn have il: "\<not> length ?pool \<le> ctx n"
      by (auto simp: recv_service_def Let_def split: if_splits)
    from r sem Ref rn il obtain m where m: "shm_of tr = Some m"
      by (cases "shm_of tr")
         (simp_all add: recv_service_def Let_def msk_semop_shm_None obind_def)
    let ?w1 = "emit [Semop (shmkey m) (- 1)] w"
    have s1: "msk_semop (fst rs) tr SHM_SEM (- 1) w = Returns (fst rs, ?w1)"
      using m by (rule msk_semop_shm)
    from r sem Ref rn il s1 obtain g where g: "segment_of tr = Some g"
      by (cases "segment_of tr") (simp_all add: recv_service_def Let_def obind_def)
    from r sem Ref rn il s1 g obtain p d where
      pd: "deref_pdata (?pool ! ctx n) ?w1 = Some (p, d)"
      by (cases "deref_pdata (?pool ! ctx n) ?w1")
         (auto simp: recv_service_def Let_def obind_def)
    let ?w3 = "emit [Semop (shmkey m) 1] (copy_from_mailbox p d g ?w1)"
    have s2: "msk_semop (snd rs) tr SHM_SEM 1 (copy_from_mailbox p d g ?w1)
                = Returns (snd rs, ?w3)"
      using m by (rule msk_semop_shm)
    let ?w4 = "run_callback Receiver (?pool ! ctx n) ?w3"
    from r sem Ref rn il s1 g pd s2 obtain sem' where
      dq: "dequeue a junk sem ?w4 = Returns (sem', w1)"
      and t1: "tr1 = set_recv_sem (Ref sem') tr"
      by (auto simp: recv_service_def Let_def obind_Returns)
    have d4: "disconnects (trace ?w4) = disconnects (trace w)"
      by (simp add: run_callback_fields emit_fields copy_from_mailbox_fields disconnects_append
          split: option.splits)
    from dequeue_Returns [OF dq] d4 sem t1 show ?thesis
      by (simp add: recv_sem_of_set_recv_sem set_recv_sem_frame)
  qed
qed

lemma recv_body_keeps:
  assumes "msk_recv_thread_body rs junk tr w = Returns (tr1, w1)"
  shows "recv_sem_of tr1 \<noteq> None
       \<and> disconnect_callback tr1 = disconnect_callback tr
       \<and> disconnects (trace w1) = disconnects (trace w)"
  using assms
  by (auto simp: msk_recv_thread_body_def obind_Returns buf_update_frame emit_fields
        disconnects_append
        dest!: recv_service_keeps split: option.splits)

lemma recv_body_empty:
  "recv_sem_of tr = Some rsem \<Longrightarrow> ctx_head rsem = Null \<Longrightarrow>
     msk_recv_thread_body rs junk tr w = Returns (tr, w)"
  by (simp add: msk_recv_thread_body_def recv_service_def obind_def)

lemma recv_loop_result:
  assumes "recv_sem_of tr \<noteq> None" and "list_ex (\<lambda>r. fst r \<noteq> 0) rs"
  shows "recv_loop rs tr w = Fault
       \<or> (\<exists>tr' w'. recv_loop rs tr w = Returns (tr', w')
            \<and> disconnect_callback tr' = disconnect_callback tr
            \<and> disconnects (trace w') = disconnects (trace w))"
  using assms
proof (induction rs arbitrary: tr w)
  case Nil
  then show ?case by simp
next
  case (Cons r rs)
  from Cons.prems(1) obtain rsem where rsem: "recv_sem_of tr = Some rsem" by auto
  let ?w1 = "emit [Semop (semid rsem) (- 1)] w"
  have s: "msk_semop (fst r) tr RECV_SEM (- 1) w = Returns (fst r, ?w1)"
    using rsem by (rule msk_semop_recv)
  have d1: "disconnects (trace ?w1) = disconnects (trace w)"
    by (simp add: emit_fields disconnects_append)
  show ?case
  proof (cases "fst r = 0")
    case False
    with s d1 show ?thesis by (simp add: obind_def)
  next
    case True
    with Cons.prems(2) have ex: "list_ex (\<lambda>r. fst r \<noteq> 0) rs" by simp
    show ?thesis
    proof (cases "msk_recv_thread_body (fst (snd r)) (snd (snd r)) tr ?w1")
      case Fault
      with s True show ?thesis by (simp add: obind_def)
    next
      case Blocks
      with recv_body_not_Blocks show ?thesis by blast
    next
      case (Returns x)
      obtain tr2 w2 where x: "x = (tr2, w2)" by (cases x)
      from recv_body_keeps [OF Returns [unfolded x]]
      have k: "recv_sem_of tr2 \<noteq> None" "disconnect_callback tr2 = disconnect_callback tr"
        "disconnects (trace w2) = disconnects (trace ?w1)" by simp_all
      from Cons.IH [OF k(1) ex, of w2] k(2,3) d1 s True Returns x
      show ?thesis by (auto simp: obind_def)
    qed
  qed
qed

lemma recv_loop_empty_queue:
  assumes "recv_sem_of tr = Some rsem" and "ctx_head rsem = Null"
  shows "recv_loop rs tr w \<noteq> Fault"
  using assms(1)
proof (induction rs arbitrary: w)
  case Nil
  then show ?case by simp
next
  case (Cons r rs)
  have s: "msk_semop (fst r) tr RECV_SEM (- 1) w
             = Returns (fst r, emit [Semop (semid rsem) (- 1)] w)"
    using assms(1) by (rule msk_semop_recv)
  show ?case
    using s Cons.IH [OF assms(1)] recv_body_empty [OF assms]
    by (simp add: obind_def)
qed

text \<open>
  C5. The receiver runs on a connection whose pointers to the receive queue and to the
  segment descriptor are set, and some wait on the receive semaphore returns a failure (a
  value other than 0). Then the thread does not wait for ever, and when it returns the
  state of the connection is \<open>MSK_CLOSED\<close> and the trace has gained one call of the
  disconnect callback if one is registered and none otherwise. When the failing wait is
  the first one the thread returns, and all it has done is that wait, the assignment of
  the state and that one call. The thread can only fail to return when an earlier wait
  succeeded on a queue whose head is not \<open>NULL\<close>: the fault then lies in the service of
  that request, before the failing wait.
\<close>

theorem C5_wait_failure_closes_once:
  assumes "recv_sem_of tr = Some rsem" and "shm_of tr = Some m"
    and "list_ex (\<lambda>r. fst r \<noteq> 0) rs"
  shows "(case msk_recv_thread rs (Some tr) w of
            Returns (trp, w') \<Rightarrow>
              map_option state trp = Some MSK_CLOSED
              \<and> disconnects (trace w') =
                  disconnects (trace w)
                  @ (case disconnect_callback tr of None \<Rightarrow> [] | Some f \<Rightarrow> [f])
          | Fault \<Rightarrow> fst (hd rs) = 0 \<and> ctx_head rsem \<noteq> Null
          | Blocks \<Rightarrow> False)
       \<and> (fst (hd rs) \<noteq> 0 \<longrightarrow>
            msk_recv_thread rs (Some tr) w =
              Returns (Some (tr\<lparr>state := MSK_CLOSED\<rparr>),
                       emit (Semop (semid rsem) (- 1)
                             # (case disconnect_callback tr of
                                  None \<Rightarrow> [] | Some f \<Rightarrow> [Disconnect_callback f])) w))"
proof -
  from assms(1,2) obtain q where q: "qp tr = Ref q" "cq_missing (recv_cq q) = Returns False"
    "\<not> is_null (qp_context q)"
    by (auto simp: chain_defs cq_missing_def is_null_def split: ptr.splits option.splits)
  have th: "msk_recv_thread rs (Some tr) w =
              obind (recv_loop rs tr w) (\<lambda>(tr1, w1).
                Returns (Some (tr1\<lparr>state := MSK_CLOSED\<rparr>),
                         (case disconnect_callback tr1 of
                            None \<Rightarrow> w1
                          | Some f \<Rightarrow> emit [Disconnect_callback f] w1)))"
    using q by (simp add: msk_recv_thread_def obind_def)
  from assms(3) obtain r rs' where rs: "rs = r # rs'" by (cases rs) auto
  have s: "msk_semop (fst r) tr RECV_SEM (- 1) w
             = Returns (fst r, emit [Semop (semid rsem) (- 1)] w)"
    using assms(1) by (rule msk_semop_recv)
  have first: "fst r \<noteq> 0 \<Longrightarrow> recv_loop rs tr w = Returns (tr, emit [Semop (semid rsem) (- 1)] w)"
    using s by (simp add: rs obind_def)
  have a: "fst (hd rs) \<noteq> 0 \<longrightarrow>
            msk_recv_thread rs (Some tr) w =
              Returns (Some (tr\<lparr>state := MSK_CLOSED\<rparr>),
                       emit (Semop (semid rsem) (- 1)
                             # (case disconnect_callback tr of
                                  None \<Rightarrow> [] | Some f \<Rightarrow> [Disconnect_callback f])) w)"
  proof
    assume "fst (hd rs) \<noteq> 0"
    then have "fst r \<noteq> 0" by (simp add: rs)
    from first [OF this] show "msk_recv_thread rs (Some tr) w =
              Returns (Some (tr\<lparr>state := MSK_CLOSED\<rparr>),
                       emit (Semop (semid rsem) (- 1)
                             # (case disconnect_callback tr of
                                  None \<Rightarrow> [] | Some f \<Rightarrow> [Disconnect_callback f])) w)"
      by (simp add: th obind_def emit_def split: option.splits)
  qed
  have nf: "fst (hd rs) \<noteq> 0 \<or> ctx_head rsem = Null \<Longrightarrow> recv_loop rs tr w \<noteq> Fault"
    using first recv_loop_empty_queue [OF assms(1), of rs w] by (auto simp: rs)
  from assms(1) have ne: "recv_sem_of tr \<noteq> None" by simp
  from recv_loop_result [OF ne assms(3), of w]
  have b: "(case msk_recv_thread rs (Some tr) w of
            Returns (trp, w') \<Rightarrow>
              map_option state trp = Some MSK_CLOSED
              \<and> disconnects (trace w') =
                  disconnects (trace w)
                  @ (case disconnect_callback tr of None \<Rightarrow> [] | Some f \<Rightarrow> [f])
          | Fault \<Rightarrow> fst (hd rs) = 0 \<and> ctx_head rsem \<noteq> Null
          | Blocks \<Rightarrow> False)"
  proof
    assume f: "recv_loop rs tr w = Fault"
    with nf show ?thesis by (auto simp: th obind_def)
  next
    assume "\<exists>tr' w'. recv_loop rs tr w = Returns (tr', w')
            \<and> disconnect_callback tr' = disconnect_callback tr
            \<and> disconnects (trace w') = disconnects (trace w)"
    then show ?thesis
      by (auto simp: th obind_def emit_fields disconnects_append split: option.splits)
  qed
  from a b show ?thesis by blast
qed

theorem C5_wait_failure_closes_once_witness:
  "(\<exists>tr' w'. msk_recv_thread [(0, (0, 0), freed_bytes), (- 1, (0, 0), freed_bytes)]
                (Some ready_trans) ready_world = Returns (Some tr', w')
            \<and> state tr' = MSK_CLOSED \<and> disconnects (trace w') = [9])
   \<and> msk_recv_thread [(- 1, (0, 0), freed_bytes)] (Some posted_trans) posted_world
       = Returns (Some (posted_trans\<lparr>state := MSK_CLOSED\<rparr>),
                  emit [Semop 8 (- 1), Disconnect_callback 9] posted_world)"
proof
  let ?rs = "[(0, (0, 0), freed_bytes), (- 1, (0, 0), freed_bytes)]"
  have h: "ctx_head (zero_sem\<lparr>semkey := SERVER_SEND_SEM_KEY, semid := 8\<rparr>) = Null"
    "disconnects (trace ready_world) = []" "disconnect_callback ready_trans = Some 9"
    by (simp_all add: zero_sem_def ready_world_def world0_def ready_trans_def init_trans_def)
  from C5_wait_failure_closes_once [OF recv_sem_of_ready shm_of_ready, of ?rs ready_world]
  have "(case msk_recv_thread ?rs (Some ready_trans) ready_world of
           Returns (trp, w') \<Rightarrow>
             map_option state trp = Some MSK_CLOSED \<and> disconnects (trace w') = [9]
         | Fault \<Rightarrow> False
         | Blocks \<Rightarrow> False)"
    by (cases "msk_recv_thread ?rs (Some ready_trans) ready_world") (auto simp: h)
  then show "\<exists>tr' w'. msk_recv_thread ?rs (Some ready_trans) ready_world = Returns (Some tr', w')
            \<and> state tr' = MSK_CLOSED \<and> disconnects (trace w') = [9]"
    by (auto split: outcome.splits)
next
  show "msk_recv_thread [(- 1, (0, 0), freed_bytes)] (Some posted_trans) posted_world
       = Returns (Some (posted_trans\<lparr>state := MSK_CLOSED\<rparr>),
                  emit [Semop 8 (- 1), Disconnect_callback 9] posted_world)"
    using C5_wait_failure_closes_once
            [OF recv_sem_of_posted shm_of_posted, of "[(- 1, (0, 0), freed_bytes)]" posted_world]
    by (simp add: posted_trans_def init_trans_def zeroed_trans_def)
qed

text \<open>
  The case that the theorem leaves open occurs: one receive is posted, the first wait
  succeeds and the request is served, the second wait succeeds too. The head of the queue
  is then what \<open>free\<close> left in the node, and the thread does not reach the assignment of
  \<open>MSK_CLOSED\<close>.
\<close>

lemma receiver_lost_after_one_service:
  "msk_recv_thread [(0, (0, 0), freed_bytes), (0, (0, 0), freed_bytes), (- 1, (0, 0), freed_bytes)]
     (Some posted_trans) posted_world = Fault"
  by (simp add: msk_recv_thread_def msk_recv_thread_body_def recv_service_def
      copy_from_mailbox_def cq_missing_def is_null_def posted_trans_def posted_world_def
      mailbox8_def eval_defs)

subsection \<open>The order of sends\<close>

text \<open>
  C1 (evaluation of the source where the statement fails). Two sends are posted on a
  connection whose setup succeeded: both calls return 0 and the queue holds the nodes 10
  and 11 in this order. The sender wakes up and runs its body: the 4 bytes of the first
  message are in the mailbox and the callback of the first send has been called. The
  body has freed the head node and then read \<open>next\<close> from the freed block, so the head of
  the queue is now what the allocator left there and not the node 11. At its next pass
  the sender dereferences that pointer: the second send is never placed into the mailbox
  and its callback is never called.
\<close>

theorem C1_second_send_is_never_served:
  "(case two_sends_posted of
      Returns (ret, trp, w) \<Rightarrow>
        ret = 0
        \<and> (case Option.bind trp send_sem_of of
             Some s \<Rightarrow> chain (nodes w) (ctx_head s) [10, 11] \<and> ctx_last s = Ref 11
           | None \<Rightarrow> False)
    | Fault \<Rightarrow> False
    | Blocks \<Rightarrow> False)
   \<and> (case sender_pass freed_bytes two_sends_posted of
        Returns (tr, w) \<Rightarrow>
          mailbox_puts (trace w) = [Some 50]
          \<and> completions Sender (trace w) = [(Some 50, Some 1, None)]
          \<and> map_option seg_size (segment_of tr) = Some 4
          \<and> map_option (\<lambda>g. map (seg_data g) [0, 1, 2, 3]) (segment_of tr)
              = Some [100, 101, 102, 103]
          \<and> map_option ctx_head (send_sem_of tr) = Some Wild
          \<and> nodes w 11 = Live \<lparr>ctx = 1, next_l = Null\<rparr>
          \<and> map used (pool_of (send_buf tr)) = [0, 1]
          \<and> msk_send_thread_body (0, 0, 0) freed_bytes tr w = Fault
      | Fault \<Rightarrow> False
      | Blocks \<Rightarrow> False)"
  by (simp add: eval_defs)

subsection \<open>Queued slots are in use\<close>

text \<open>
  C6 (evaluation of the source where the statement fails). One send is posted on a
  connection whose setup succeeded, and the sender runs its body once. When the body
  clears the in-use flag of the slot, the node 10 is freed but not unlinked: \<open>ctx_last\<close>
  still points to it, and \<open>ctx_head\<close>, read from the freed block, is neither \<open>NULL\<close> nor a
  node. A second send posted then takes the slot again and is linked behind the freed
  node, by a write into the freed block; its node is not reachable from \<open>ctx_head\<close>, and
  the next pass of the sender dereferences \<open>ctx_head\<close>.
\<close>

theorem C6_freed_node_stays_linked:
  "(case sender_pass freed_bytes first_post of
      Returns (tr, w) \<Rightarrow>
        map used (pool_of (send_buf tr)) = [0, 0]
        \<and> nodes w 10 = Freed freed_bytes
        \<and> map_option ctx_last (send_sem_of tr) = Some (Ref 10)
        \<and> map_option ctx_head (send_sem_of tr) = Some Wild
        \<and> (case msk_post_n_send (Some 11) (Some tr) (Some 51) 1 None (Some 2) None None w of
             Returns (ret, trp, w') \<Rightarrow>
               ret = 0
               \<and> map_option (\<lambda>t. map used (pool_of (send_buf t))) trp = Some [1, 0]
               \<and> nodes w' 10 = Freed (freed_bytes\<lparr>next_l := Ref 11\<rparr>)
               \<and> nodes w' 11 = Live \<lparr>ctx = 0, next_l = Null\<rparr>
               \<and> Option.bind trp (map_option ctx_head \<circ> send_sem_of) = Some Wild
               \<and> sender_pass freed_bytes (Returns (ret, trp, w')) = Fault
           | Fault \<Rightarrow> False
           | Blocks \<Rightarrow> False)
    | Fault \<Rightarrow> False
    | Blocks \<Rightarrow> False)"
  by (simp add: eval_defs)

end
